theory Spec2Isabelle
  imports Main "HOL-Library.Multiset"
begin

unbundle bit_operations_syntax

section \<open>JavaScript values\<close>

text \<open>
  The values a site identifier, a callback argument or a global variable can hold.
  \<open>JNaN\<close> is kept apart from the other numbers because it is the one value that is not
  strictly equal to itself.
\<close>

datatype jsval = JUndefined | JNull | JBool bool | JNum int | JNaN | JStr string

text \<open>\<open>!v\<close> is \<open>\<not> truthy v\<close>.\<close>

fun truthy :: "jsval \<Rightarrow> bool" where
  "truthy JUndefined = False"
| "truthy JNull = False"
| "truthy (JBool b) = b"
| "truthy (JNum n) = (n \<noteq> 0)"
| "truthy JNaN = False"
| "truthy (JStr s) = (s \<noteq> [])"

text \<open>\<open>a === b\<close> on these values.\<close>

definition strict_eq :: "jsval \<Rightarrow> jsval \<Rightarrow> bool" where
  "strict_eq a b = (a = b \<and> a \<noteq> JNaN)"

text \<open>An \<open>Error\<close> object is represented by its message; \<open>err.stack\<close> starts with it.\<close>

type_synonym error = string

definition stack :: "error \<Rightarrow> string" where
  "stack e = ''Error: '' @ e"

section \<open>Constants of SiteService\<close>

definition GLOBAL_SITE :: string where
  "GLOBAL_SITE = ''global''"

definition NO_SITE :: string where
  "NO_SITE = ''no-site''"

definition SITE_COLLECTION :: string where
  "SITE_COLLECTION = ''site''"

section \<open>Site identifiers: isGlobal, areEqual, isNotSetOrEqual, getCurrentSite\<close>

definition isGlobal :: "jsval \<Rightarrow> bool" where
  "isGlobal siteid = (\<not> truthy siteid \<or> strict_eq siteid (JStr GLOBAL_SITE))"

definition areEqual :: "jsval \<Rightarrow> jsval \<Rightarrow> bool" where
  "areEqual siteA siteB =
     (if isGlobal siteA \<and> isGlobal siteB then True else strict_eq siteA siteB)"

definition isNotSetOrEqual :: "jsval \<Rightarrow> jsval \<Rightarrow> bool" where
  "isNotSetOrEqual actual expected = (\<not> truthy actual \<or> areEqual actual expected)"

definition getCurrentSite :: "jsval \<Rightarrow> jsval" where
  "getCurrentSite siteid = (if truthy siteid then siteid else JStr GLOBAL_SITE)"

section \<open>Site records and process configuration\<close>

text \<open>
  A site object \<open>{_id, uid, displayName, hostname, active}\<close>. \<open>oid\<close> is the \<open>_id\<close> the
  database assigns; it is \<open>None\<close> on an object that was never saved. Identifiers are
  opaque, so naturals stand for them.
\<close>

record site =
  oid :: "nat option"
  uid :: string
  displayName :: string
  hostname :: string
  active :: bool

text \<open>
  The part of \<open>pb.config\<close> the service reads. In \<open>multisite_globalRoot\<close> the empty
  string stands for every falsy setting (unset or empty): the code only tests it with \<open>!\<close>
  before parsing it.
\<close>

record config =
  siteName :: string
  siteRoot :: string
  multisite_enabled :: bool
  multisite_globalRoot :: string

section \<open>Strings: toLowerCase and the anchored expression\<close>

definition lower_char :: "char \<Rightarrow> char" where
  "lower_char c =
     (let n = (of_char c :: nat) in if 65 \<le> n \<and> n \<le> 90 then char_of (n + 32) else c)"

text \<open>
  \<open>s.toLowerCase()\<close> for ASCII text only: the letters \<open>A\<close> to \<open>Z\<close> are lowered and
  nothing else is. JavaScript lowers every cased letter, so on text with a character
  outside ASCII this definition does not say what the code computes. \<open>is_ascii\<close> marks
  the text it is right for, and every property below that depends on letter case is stated
  for such text.
\<close>

definition toLowerCase :: "string \<Rightarrow> string" where
  "toLowerCase s = map lower_char s"

definition is_ascii :: "string \<Rightarrow> bool" where
  "is_ascii s = list_all (\<lambda>c. (of_char c :: nat) < 128) s"

text \<open>
  Modelled from the spec: \<open>util.escapeRegExp\<close> is not part of the sources at hand; it
  makes its argument a literal, so that
  \<open>new RegExp('^' + util.escapeRegExp(t) + '$', 'i')\<close> is the expression that accepts
  exactly the text \<open>t\<close>, ignoring letter case when the flag \<open>i\<close> is given.
  \<open>Anchored t i\<close> is that expression. Its test compares after \<open>toLowerCase\<close>, so it is
  the expression's verdict when both the literal and the text tested are ASCII.
\<close>

datatype regexp = Anchored string bool

fun re_test :: "regexp \<Rightarrow> string \<Rightarrow> bool" where
  "re_test (Anchored t ignoreCase) s =
     (if ignoreCase then toLowerCase s = toLowerCase t else s = t)"

section \<open>Persistence: queries\<close>

text \<open>
  A \<open>where\<close> object is the conjunction of its entries: \<open>{uid: v}\<close> is
  \<open>[Field_is ''uid'' v]\<close>, \<open>{}\<close> is \<open>[]\<close>, a regular expression as value is
  \<open>Field_matches\<close>, and the entry \<open>pb.DAO.getNotIDField(id)\<close> under the id field is
  \<open>Id_not id\<close>.
\<close>

datatype cond = Field_is string jsval | Field_matches string regexp | Id_not nat

type_synonym where_clause = "cond list"

definition field :: "site \<Rightarrow> string \<Rightarrow> jsval" where
  "field s k =
     (if k = ''uid'' then JStr (uid s)
      else if k = ''displayName'' then JStr (displayName s)
      else if k = ''hostname'' then JStr (hostname s)
      else if k = ''active'' then JBool (active s)
      else JUndefined)"

fun holds :: "site \<Rightarrow> cond \<Rightarrow> bool" where
  "holds s (Field_is k v) = (field s k = v)"
| "holds s (Field_matches k r) = (case field s k of JStr t \<Rightarrow> re_test r t | _ \<Rightarrow> False)"
| "holds s (Id_not i) = (oid s \<noteq> Some i)"

definition matches :: "where_clause \<Rightarrow> site \<Rightarrow> bool" where
  "matches wh s = list_all (holds s) wh"

datatype db_call =
    Load where_clause
  | Query where_clause
  | Count where_clause
  | Exists where_clause
  | Save site

section \<open>Routing Registry, commands and jobs: the data\<close>

text \<open>The calls \<open>pb.RequestHandler\<close> receives, each with the site object passed.\<close>

datatype reg_call = LoadSite site | ActivateSite site | DeactivateSite site

record command =
  ctype :: string
  csite :: string
  jobId :: string

record response =
  r_error :: "string option"
  r_result :: bool

datatype job_class = SiteActivateJob | SiteDeactivateJob

record job =
  job_class :: job_class
  runAsInitiator :: bool
  job_name :: string
  job_id :: string
  job_site :: string

text \<open>The two functions \<open>SiteService.init\<close> can hand to the command service.\<close>

datatype handler = OnActivateSiteCommandReceived | OnDeactivateSiteCommandReceived

section \<open>The process state\<close>

text \<open>
  Everything the service reads or changes outside its own arguments: the site collection,
  the failure the database answers with (if any), the calls made to the database and to
  the Routing Registry, the properties of the global object, the handlers registered with
  the command service, the responses and broadcasts sent through it, the jobs run and the
  lines written to the error log.
\<close>

record world =
  store :: "site list"
  db_fault :: "error option"
  db_log :: "db_call list"
  reg_log :: "reg_call list"
  globals :: "(string \<times> jsval) list"
  handlers :: "(string \<times> handler) list"
  responses :: "(command \<times> response) list"
  broadcasts :: "command list"
  job_log :: "job list"
  error_log :: "string list"

text \<open>How a callback was invoked: \<open>Called err value\<close>, or not at all because the code threw.\<close>

datatype 'a completion = Called "error option" 'a | Threw string

section \<open>Persistence: pb.DAO\<close>

text \<open>
  Modelled from the spec: \<open>pb.DAO\<close> is not part of the sources at hand. The spec gives
  its contract: \<open>query(collection, filter)\<close> yields the ordered sequence of matching
  records, \<open>count\<close> their number, \<open>exists\<close> whether there is one, \<open>save(record)\<close> the
  record with its id; a failure of the database is passed to the callback unchanged and
  nothing is written. Loading by values yields the first match or nothing. Only the site
  collection exists here, so the collection argument is left out.
\<close>

definition db_reply :: "world \<Rightarrow> 'a \<Rightarrow> error + 'a" where
  "db_reply w v = (case db_fault w of Some e \<Rightarrow> Inl e | None \<Rightarrow> Inr v)"

definition db_called :: "db_call \<Rightarrow> world \<Rightarrow> world" where
  "db_called c w = w\<lparr>db_log := db_log w @ [c]\<rparr>"

definition dao_q :: "where_clause \<Rightarrow> world \<Rightarrow> world \<times> (error + site list)" where
  "dao_q wh w = (db_called (Query wh) w, db_reply w (filter (matches wh) (store w)))"

definition dao_count :: "where_clause \<Rightarrow> world \<Rightarrow> world \<times> (error + nat)" where
  "dao_count wh w = (db_called (Count wh) w, db_reply w (length (filter (matches wh) (store w))))"

definition dao_exists :: "where_clause \<Rightarrow> world \<Rightarrow> world \<times> (error + bool)" where
  "dao_exists wh w = (db_called (Exists wh) w, db_reply w (list_ex (matches wh) (store w)))"

definition dao_loadByValues :: "where_clause \<Rightarrow> world \<Rightarrow> world \<times> (error + site option)" where
  "dao_loadByValues wh w = (db_called (Load wh) w, db_reply w (find (matches wh) (store w)))"

definition dao_loadByValue :: "string \<Rightarrow> jsval \<Rightarrow> world \<Rightarrow> world \<times> (error + site option)" where
  "dao_loadByValue k v w = dao_loadByValues [Field_is k v] w"

definition next_oid :: "site list \<Rightarrow> nat" where
  "next_oid st = Suc (fold max (map (\<lambda>s. case oid s of None \<Rightarrow> 0 | Some i \<Rightarrow> i) st) 0)"

text \<open>
  \<open>save\<close> inserts an object that has no id under a fresh one, and replaces the stored
  record of the same id otherwise (inserting when there is none).
\<close>

definition dao_save :: "site \<Rightarrow> world \<Rightarrow> world \<times> (error + site)" where
  "dao_save s w =
     (case db_fault w of
        Some e \<Rightarrow> (db_called (Save s) w, Inl e)
      | None \<Rightarrow>
          (let saved = (case oid s of None \<Rightarrow> s\<lparr>oid := Some (next_oid (store w))\<rparr> | Some i \<Rightarrow> s);
               st = (if list_ex (\<lambda>r. oid r = oid saved) (store w)
                     then map (\<lambda>r. if oid r = oid saved then saved else r) (store w)
                     else store w @ [saved])
           in ((db_called (Save s) w)\<lparr>store := st\<rparr>, Inr saved)))"

section \<open>Routing Registry: pb.RequestHandler\<close>

definition rh_loadSite :: "site \<Rightarrow> world \<Rightarrow> world" where
  "rh_loadSite s w = w\<lparr>reg_log := reg_log w @ [LoadSite s]\<rparr>"

definition rh_activateSite :: "site \<Rightarrow> world \<Rightarrow> world" where
  "rh_activateSite s w = w\<lparr>reg_log := reg_log w @ [ActivateSite s]\<rparr>"

definition rh_deactivateSite :: "site \<Rightarrow> world \<Rightarrow> world" where
  "rh_deactivateSite s w = w\<lparr>reg_log := reg_log w @ [DeactivateSite s]\<rparr>"

fun call_site :: "reg_call \<Rightarrow> site" where
  "call_site (LoadSite s) = s"
| "call_site (ActivateSite s) = s"
| "call_site (DeactivateSite s) = s"

text \<open>
  Modelled from the spec: \<open>pb.RequestHandler\<close> is not part of the sources at hand. The
  spec describes its table: one entry per hostname, holding the site object of the last
  call made for that hostname (last write wins).
\<close>

definition routing_table :: "reg_call list \<Rightarrow> (string \<rightharpoonup> site)" where
  "routing_table calls =
     foldl (\<lambda>t c. t(hostname (call_site c) \<mapsto> call_site c)) Map.empty calls"

section \<open>The async library: series and parallel over named tasks\<close>

text \<open>
  Modelled from the spec: the \<open>async\<close> library is not part of the sources at hand. Both
  functions take an object of named tasks and call back with an object holding each
  task's result under its name. \<open>series\<close> runs the tasks in order and stops at the first
  error; \<open>parallel\<close> starts every task and calls back at the first error. In both, the
  results at an error hold the tasks completed so far and the failed one, whose value is
  undefined (\<open>None\<close>).
\<close>

type_synonym 'a task = "world \<Rightarrow> world \<times> (error + 'a)"

type_synonym 'a results = "(string \<times> 'a option) list"

primrec start_all :: "(string \<times> 'a task) list \<Rightarrow> world \<Rightarrow> world" where
  "start_all [] w = w"
| "start_all (t # ts) w = start_all ts (fst (snd t w))"

primrec series_from ::
  "(string \<times> 'a task) list \<Rightarrow> 'a results \<Rightarrow> world \<Rightarrow> world \<times> error option \<times> 'a results" where
  "series_from [] acc w = (w, None, acc)"
| "series_from (t # ts) acc w =
     (case snd t w of
        (w', Inl e) \<Rightarrow> (w', Some e, acc @ [(fst t, None)])
      | (w', Inr v) \<Rightarrow> series_from ts (acc @ [(fst t, Some v)]) w')"

primrec parallel_from ::
  "(string \<times> 'a task) list \<Rightarrow> 'a results \<Rightarrow> world \<Rightarrow> world \<times> error option \<times> 'a results" where
  "parallel_from [] acc w = (w, None, acc)"
| "parallel_from (t # ts) acc w =
     (case snd t w of
        (w', Inl e) \<Rightarrow> (start_all ts w', Some e, acc @ [(fst t, None)])
      | (w', Inr v) \<Rightarrow> parallel_from ts (acc @ [(fst t, Some v)]) w')"

definition async_series ::
  "(string \<times> 'a task) list \<Rightarrow> world \<Rightarrow> world \<times> error option \<times> 'a results" where
  "async_series tasks w = series_from tasks [] w"

definition async_parallel ::
  "(string \<times> 'a task) list \<Rightarrow> world \<Rightarrow> world \<times> error option \<times> 'a results" where
  "async_parallel tasks w = parallel_from tasks [] w"

section \<open>Site Repository: getByUid, getAllSites, getActiveSites, getInactiveSites, getSiteMap\<close>

text \<open>
  What \<open>getByUid\<close> hands to its callback: the object literal built for the global site,
  a loaded document, or \<open>null\<close>.
\<close>

datatype loaded = Literal "(string \<times> jsval) list" | Document site | Nothing

definition getByUid :: "config \<Rightarrow> jsval \<Rightarrow> world \<Rightarrow> world \<times> (error + loaded)" where
  "getByUid cfg uid_arg w =
     (if \<not> truthy uid_arg \<or> strict_eq uid_arg (JStr GLOBAL_SITE)
      then (w, Inr (Literal [(''displayName'', JStr (siteName cfg)),
                             (''hostname'', JStr (siteRoot cfg)),
                             (''uid'', JStr GLOBAL_SITE)]))
      else (case dao_loadByValues [Field_is ''uid'' uid_arg] w of
              (w', Inl e) \<Rightarrow> (w', Inl e)
            | (w', Inr None) \<Rightarrow> (w', Inr Nothing)
            | (w', Inr (Some s)) \<Rightarrow> (w', Inr (Document s))))"

definition getAllSites :: "world \<Rightarrow> world \<times> (error + site list)" where
  "getAllSites w = dao_q [] w"

definition getActiveSites :: "world \<Rightarrow> world \<times> (error + site list)" where
  "getActiveSites w = dao_q [Field_is ''active'' (JBool True)] w"

definition getInactiveSites :: "world \<Rightarrow> world \<times> (error + site list)" where
  "getInactiveSites w = dao_q [Field_is ''active'' (JBool False)] w"

definition getSiteMap :: "world \<Rightarrow> world \<times> error option \<times> site list results" where
  "getSiteMap w = async_series [(''active'', getActiveSites), (''inactive'', getInactiveSites)] w"

definition siteExists :: "jsval \<Rightarrow> world \<Rightarrow> world \<times> (error + bool)" where
  "siteExists siteUid w = dao_exists [Field_is ''uid'' siteUid] w"

section \<open>Uniqueness Validator\<close>

text \<open>
  \<open>exclude_id\<close> is the id of the record to leave out of the search; \<open>None\<close> stands
  for a falsy \<open>id\<close> argument. \<open>getWhere\<close> adds the exclusion to a \<open>where\<close> object when
  an id was given.
\<close>

definition getWhere :: "nat option \<Rightarrow> where_clause \<Rightarrow> where_clause" where
  "getWhere exclude_id wh = (case exclude_id of Some i \<Rightarrow> wh @ [Id_not i] | None \<Rightarrow> wh)"

text \<open>
  \<open>getExistingDisplayNameHostnameCounts\<close> may also be called with its callback in place
  of the id: the code then takes that function as the callback and searches with no
  exclusion, which is the case \<open>None\<close> here.
\<close>

definition getExistingDisplayNameHostnameCounts ::
  "string \<Rightarrow> string \<Rightarrow> nat option \<Rightarrow> world \<Rightarrow> world \<times> error option \<times> nat results" where
  "getExistingDisplayNameHostnameCounts dn hn exclude_id w =
     async_parallel
       [(''displayName'',
           dao_count (getWhere exclude_id [Field_matches ''displayName'' (Anchored (toLowerCase dn) True)])),
        (''hostname'',
           dao_count (getWhere exclude_id [Field_is ''hostname'' (JStr (toLowerCase hn))]))]
       w"

text \<open>\<open>ToInt32\<close> of the values the accumulator of the loop can hold.\<close>

fun to_int32 :: "jsval \<Rightarrow> int" where
  "to_int32 (JBool b) = of_bool b"
| "to_int32 (JNum n) = signed_take_bit 31 n"
| "to_int32 _ = 0"

text \<open>\<open>results[key] > 0\<close>; an undefined value compares false.\<close>

definition gt_zero :: "nat option \<Rightarrow> bool" where
  "gt_zero v = (case v of None \<Rightarrow> False | Some n \<Rightarrow> n > 0)"

text \<open>\<open>result |= b\<close> for a boolean \<open>b\<close>: the result is a number.\<close>

definition or_assign :: "jsval \<Rightarrow> bool \<Rightarrow> jsval" where
  "or_assign result b = JNum (to_int32 result OR of_bool b)"

text \<open>
  The callback of \<open>isDisplayNameOrHostnameTaken\<close>: \<open>results\<close> is \<open>None\<close> when it is
  \<open>null\<close>, and the loop visits the keys in order.
\<close>

definition taken_result :: "nat results option \<Rightarrow> jsval" where
  "taken_result results =
     (case results of
        None \<Rightarrow> JBool True
      | Some kvs \<Rightarrow> fold (\<lambda>kv result. or_assign result (gt_zero (snd kv))) kvs (JBool False))"

definition isDisplayNameOrHostnameTaken ::
  "string \<Rightarrow> string \<Rightarrow> nat option \<Rightarrow> world \<Rightarrow> world \<times> error option \<times> jsval" where
  "isDisplayNameOrHostnameTaken dn hn exclude_id w =
     (case getExistingDisplayNameHostnameCounts dn hn exclude_id w of
        (w', err, results) \<Rightarrow> (w', err, taken_result (Some results)))"

text \<open>
  \<open>isDisplayNameOrHostnameTaken\<close> above is the call with all four arguments. Called
  with three, \<open>isDisplayNameOrHostnameTaken(displayName, hostname, fn)\<close>, the function is
  bound to \<open>id\<close> and \<open>cb\<close> is undefined; \<open>getExistingDisplayNameHostnameCounts\<close> takes
  \<open>fn\<close> as its callback in place of the one that computes the verdict, so \<open>fn\<close> receives
  the error and the counts object themselves and the loop over the counts never runs.
\<close>

definition isDisplayNameOrHostnameTaken_three_arguments ::
  "string \<Rightarrow> string \<Rightarrow> world \<Rightarrow> world \<times> error option \<times> nat results" where
  "isDisplayNameOrHostnameTaken_three_arguments dn hn w =
     getExistingDisplayNameHostnameCounts dn hn None w"

section \<open>createSite\<close>

text \<open>
  \<open>new_uid\<close> is the value \<open>pb.util.uniqueId()\<close> returns. The callback receives
  \<open>(err, isTaken, field, result)\<close>; \<open>field\<close> is the third argument of the validator's
  callback, which the validator never passes, so it is \<open>undefined\<close> there.
\<close>

record created =
  c_err :: "error option"
  c_isTaken :: jsval
  c_field :: jsval
  c_result :: "site option"

definition createSite :: "string \<Rightarrow> site \<Rightarrow> nat option \<Rightarrow> world \<Rightarrow> world \<times> created" where
  "createSite new_uid site0 exclude_id w =
     (let site = site0\<lparr>active := False, uid := new_uid\<rparr> in
      case isDisplayNameOrHostnameTaken (displayName site) (hostname site) exclude_id w of
        (w1, err, isTaken) \<Rightarrow>
          if err \<noteq> None \<or> truthy isTaken
          then (w1, \<lparr>c_err = err, c_isTaken = isTaken, c_field = JUndefined, c_result = None\<rparr>)
          else (case dao_save site w1 of
                  (w2, Inl e) \<Rightarrow>
                    (w2, \<lparr>c_err = Some e, c_isTaken = JBool False, c_field = JNull, c_result = None\<rparr>)
                | (w2, Inr result) \<Rightarrow>
                    (w2, \<lparr>c_err = None, c_isTaken = JBool False, c_field = JNull,
                          c_result = Some result\<rparr>)))"

section \<open>startAcceptingSiteTraffic, stopAcceptingSiteTraffic\<close>

text \<open>
  The identifier \<open>result\<close> in the last branch is bound in no enclosing function, so it is
  read from the global object; reading an identifier that is not there throws a
  \<open>ReferenceError\<close>.
\<close>

definition read_global :: "string \<Rightarrow> world \<Rightarrow> string + jsval" where
  "read_global x w =
     (case map_of (globals w) x of
        None \<Rightarrow> Inl (''ReferenceError: '' @ x @ '' is not defined'')
      | Some v \<Rightarrow> Inr v)"

definition startAcceptingSiteTraffic :: "jsval \<Rightarrow> world \<Rightarrow> world \<times> jsval completion" where
  "startAcceptingSiteTraffic siteUid w =
     (case dao_loadByValue ''uid'' siteUid w of
        (w1, Inl err) \<Rightarrow> (w1, Called (Some err) JNull)
      | (w1, Inr None) \<Rightarrow> (w1, Called (Some ''Site not found'') JNull)
      | (w1, Inr (Some site)) \<Rightarrow>
          if \<not> active site then (w1, Called (Some ''Site not active'') JNull)
          else (let w2 = rh_activateSite site w1 in
                case read_global ''result'' w2 of
                  Inl thrown \<Rightarrow> (w2, Threw thrown)
                | Inr result \<Rightarrow> (w2, Called None result)))"

definition stopAcceptingSiteTraffic :: "jsval \<Rightarrow> world \<Rightarrow> world \<times> jsval completion" where
  "stopAcceptingSiteTraffic siteUid w =
     (case dao_loadByValue ''uid'' siteUid w of
        (w1, Inl err) \<Rightarrow> (w1, Called (Some err) JNull)
      | (w1, Inr None) \<Rightarrow> (w1, Called (Some ''Site not found'') JNull)
      | (w1, Inr (Some site)) \<Rightarrow>
          if active site then (w1, Called (Some ''Site not deactivated'') JNull)
          else (let w2 = rh_deactivateSite site w1 in
                case read_global ''result'' w2 of
                  Inl thrown \<Rightarrow> (w2, Threw thrown)
                | Inr result \<Rightarrow> (w2, Called None result)))"

section \<open>initSites\<close>

text \<open>
  \<open>url_host r\<close> is \<open>url.parse(r).host\<close>; the \<open>url\<close> module is outside the sources at hand,
  so it is a parameter.
\<close>

definition global_entry :: "(string \<Rightarrow> string) \<Rightarrow> config \<Rightarrow> site" where
  "global_entry url_host cfg =
     \<lparr>oid = None,
      uid = GLOBAL_SITE,
      displayName = GLOBAL_SITE,
      hostname = (if multisite_enabled cfg then url_host (multisite_globalRoot cfg)
                  else url_host (siteRoot cfg)),
      active = (if multisite_enabled cfg then False else True)\<rparr>"

definition initSites ::
  "(string \<Rightarrow> string) \<Rightarrow> config \<Rightarrow> world \<Rightarrow> world \<times> jsval completion" where
  "initSites url_host cfg w =
     (if multisite_enabled cfg \<and> multisite_globalRoot cfg = []
      then (w, Called (Some ''A Global Hostname must be configured with multisite turned on.'')
                      (JBool False))
      else (case getAllSites w of
              (w1, Inl err) \<Rightarrow> (w1, Called (Some err) JUndefined)
            | (w1, Inr results) \<Rightarrow>
                (let w2 = fold rh_loadSite results w1;
                     w3 = rh_loadSite (global_entry url_host cfg) w2
                 in (w3, Called None (JBool True)))))"

section \<open>Activation jobs\<close>

text \<open>
  Modelled from the spec: the classes \<open>pb.SiteActivateJob\<close> and \<open>pb.SiteDeactivateJob\<close>
  are not part of the sources at hand. The spec gives the run of a job: load the site
  record; if it is missing, fail with "Site not found"; set \<open>active\<close> (true for an
  activation, false for a deactivation); persist; then instruct the Routing Registry; and,
  when the job runs as the initiator, broadcast the command to the peer processes. The
  completion callback receives \<open>(error, result)\<close>.
\<close>

definition broadcast :: "command \<Rightarrow> world \<Rightarrow> world" where
  "broadcast c w = w\<lparr>broadcasts := broadcasts w @ [c]\<rparr>"

definition job_command :: "job \<Rightarrow> command" where
  "job_command j =
     \<lparr>ctype = (case job_class j of SiteActivateJob \<Rightarrow> ''activate_site''
                                   | SiteDeactivateJob \<Rightarrow> ''deactivate_site''),
      csite = job_site j,
      jobId = job_id j\<rparr>"

definition job_run :: "job \<Rightarrow> world \<Rightarrow> world \<times> error option \<times> bool" where
  "job_run j w =
     (case dao_loadByValue ''uid'' (JStr (job_site j)) (w\<lparr>job_log := job_log w @ [j]\<rparr>) of
        (w1, Inl err) \<Rightarrow> (w1, Some err, False)
      | (w1, Inr None) \<Rightarrow> (w1, Some ''Site not found'', False)
      | (w1, Inr (Some s)) \<Rightarrow>
          (case dao_save (s\<lparr>active := (job_class j = SiteActivateJob)\<rparr>) w1 of
             (w2, Inl err) \<Rightarrow> (w2, Some err, False)
           | (w2, Inr saved) \<Rightarrow>
               (let w3 = (case job_class j of
                            SiteActivateJob \<Rightarrow> rh_activateSite saved w2
                          | SiteDeactivateJob \<Rightarrow> rh_deactivateSite saved w2);
                    w4 = (if runAsInitiator j then broadcast (job_command j) w3 else w3)
                in (w4, None, True))))"

section \<open>activateSite, deactivateSite\<close>

text \<open>
  \<open>new_id\<close> is the id \<open>job.init(name)\<close> generates when none is supplied. The functions
  return the job id besides calling back.
\<close>

definition activateSite ::
  "string \<Rightarrow> string \<Rightarrow> world \<Rightarrow> world \<times> (error option \<times> bool) \<times> string" where
  "activateSite new_id siteUid w =
     (let j = \<lparr>job_class = SiteActivateJob, runAsInitiator = True,
                job_name = ''ACTIVATE_SITE_'' @ siteUid, job_id = new_id, job_site = siteUid\<rparr>
      in case job_run j w of (w', err, result) \<Rightarrow> (w', (err, result), job_id j))"

definition deactivateSite ::
  "string \<Rightarrow> string \<Rightarrow> world \<Rightarrow> world \<times> (error option \<times> bool) \<times> string" where
  "deactivateSite new_id siteUid w =
     (let j = \<lparr>job_class = SiteDeactivateJob, runAsInitiator = True,
                job_name = ''DEACTIVATE_SITE_'' @ siteUid, job_id = new_id, job_site = siteUid\<rparr>
      in case job_run j w of (w', err, result) \<Rightarrow> (w', (err, result), job_id j))"

section \<open>Command handlers and SiteService.init\<close>

text \<open>
  Modelled from the spec: \<open>pb.CommandService\<close> is not part of the sources at hand. The
  spec gives its contract: \<open>registerHandler(type, fn)\<close> records the handler for the
  type, an inbound command is given to the handlers registered for its type, and
  \<open>respondTo(command, payload)\<close> sends the payload back for that command.
\<close>

definition registerForType :: "string \<Rightarrow> handler \<Rightarrow> world \<Rightarrow> world" where
  "registerForType t h w = w\<lparr>handlers := handlers w @ [(t, h)]\<rparr>"

definition sendInResponseTo :: "command \<Rightarrow> response \<Rightarrow> world \<Rightarrow> world" where
  "sendInResponseTo c r w = w\<lparr>responses := responses w @ [(c, r)]\<rparr>"

text \<open>
  What a handler is called with: an object, the command, or a value that is not an object
  (\<open>util.isObject\<close> fails), given by the text \<open>util.inspect\<close> renders for it.
\<close>

datatype command_arg = Object command | Not_object string

definition onActivateSiteCommandReceived :: "command_arg \<Rightarrow> world \<Rightarrow> world" where
  "onActivateSiteCommandReceived arg w =
     (case arg of
        Not_object inspected \<Rightarrow>
          w\<lparr>error_log := error_log w @
               [''SiteService: an invalid activate_site command object was passed. '' @ inspected]\<rparr>
      | Object c \<Rightarrow>
          (let j = \<lparr>job_class = SiteActivateJob, runAsInitiator = False,
                    job_name = ''ACTIVATE_SITE_'' @ csite c, job_id = jobId c,
                    job_site = csite c\<rparr>
           in case job_run j w of
                (w', err, result) \<Rightarrow>
                  sendInResponseTo c \<lparr>r_error = map_option stack err, r_result = result\<rparr> w'))"

definition onDeactivateSiteCommandReceived :: "command_arg \<Rightarrow> world \<Rightarrow> world" where
  "onDeactivateSiteCommandReceived arg w =
     (case arg of
        Not_object inspected \<Rightarrow>
          w\<lparr>error_log := error_log w @
               [''SiteService: an invalid deactivate_site command object was passed. '' @ inspected]\<rparr>
      | Object c \<Rightarrow>
          (let j = \<lparr>job_class = SiteDeactivateJob, runAsInitiator = False,
                    job_name = ''DEACTIVATE_SITE_'' @ csite c, job_id = jobId c,
                    job_site = csite c\<rparr>
           in case job_run j w of
                (w', err, result) \<Rightarrow>
                  sendInResponseTo c \<lparr>r_error = map_option stack err, r_result = result\<rparr> w'))"

definition init :: "world \<Rightarrow> world" where
  "init w =
     registerForType ''activate_site'' OnDeactivateSiteCommandReceived
       (registerForType ''deactivate_site'' OnActivateSiteCommandReceived w)"

fun run_handler :: "handler \<Rightarrow> command_arg \<Rightarrow> world \<Rightarrow> world" where
  "run_handler OnActivateSiteCommandReceived arg w = onActivateSiteCommandReceived arg w"
| "run_handler OnDeactivateSiteCommandReceived arg w = onDeactivateSiteCommandReceived arg w"

definition handlers_for :: "string \<Rightarrow> world \<Rightarrow> handler list" where
  "handlers_for t w = map snd (filter (\<lambda>th. fst th = t) (handlers w))"

definition receive :: "command \<Rightarrow> world \<Rightarrow> world" where
  "receive c w = fold (\<lambda>h. run_handler h (Object c)) (handlers_for (ctype c) w) w"

text \<open>A process that has done nothing yet, over a given site collection.\<close>

definition fresh_world :: "site list \<Rightarrow> world" where
  "fresh_world st =
     \<lparr>store = st, db_fault = None, db_log = [], reg_log = [], globals = [], handlers = [],
      responses = [], broadcasts = [], job_log = [], error_log = []\<rparr>"

section \<open>Notions used to state the properties\<close>

text \<open>The record a load by uid yields: the first one whose uid is the value asked for.\<close>

definition site_with_uid :: "jsval \<Rightarrow> site list \<Rightarrow> site option" where
  "site_with_uid u st = find (\<lambda>s. JStr (uid s) = u) st"

text \<open>A record takes part in a search unless it is the one left out.\<close>

definition not_excluded :: "nat option \<Rightarrow> site \<Rightarrow> bool" where
  "not_excluded exclude_id s = (case exclude_id of None \<Rightarrow> True | Some i \<Rightarrow> oid s \<noteq> Some i)"

text \<open>
  The two counts in the spec's words: the records whose display name is the proposed one
  up to letter case, and the records whose hostname is the proposed one in lower case.
\<close>

definition displayName_count :: "string \<Rightarrow> nat option \<Rightarrow> site list \<Rightarrow> nat" where
  "displayName_count dn exclude_id st =
     length (filter (\<lambda>s. toLowerCase (displayName s) = toLowerCase dn
                          \<and> not_excluded exclude_id s) st)"

definition hostname_count :: "string \<Rightarrow> nat option \<Rightarrow> site list \<Rightarrow> nat" where
  "hostname_count hn exclude_id st =
     length (filter (\<lambda>s. hostname s = toLowerCase hn \<and> not_excluded exclude_id s) st)"

section \<open>Example data\<close>

definition acme :: site where
  "acme = \<lparr>oid = Some 1, uid = ''x'', displayName = ''Acme'', hostname = ''acme.example.com'',
           active = True\<rparr>"

definition beta :: site where
  "beta = \<lparr>oid = Some 2, uid = ''y'', displayName = ''Beta'', hostname = ''beta.example.com'',
           active = False\<rparr>"

definition example_world :: world where
  "example_world = fresh_world [acme, beta]"

definition example_config :: config where
  "example_config = \<lparr>siteName = ''pencilblue'', siteRoot = ''http://localhost:8080'',
      multisite_enabled = False, multisite_globalRoot = []\<rparr>"

definition broken_config :: config where
  "broken_config = \<lparr>siteName = ''pencilblue'', siteRoot = ''http://localhost:8080'',
      multisite_enabled = True, multisite_globalRoot = []\<rparr>"

text \<open>A stored site whose hostname has a capital letter, and a proposal with the same hostname.\<close>

definition mixed :: site where
  "mixed = \<lparr>oid = Some 1, uid = ''u1'', displayName = ''X'', hostname = ''A.com'',
            active = False\<rparr>"

definition proposed :: site where
  "proposed = \<lparr>oid = None, uid = [], displayName = ''Y'', hostname = ''A.com'',
               active = True\<rparr>"

definition activate_x :: command where
  "activate_x = \<lparr>ctype = ''activate_site'', csite = ''x'', jobId = ''j1''\<rparr>"

section \<open>Site identifiers: theorems\<close>

lemma strict_eq_refl_iff: "strict_eq a a = (a \<noteq> JNaN)"
  by (simp add: strict_eq_def)







section \<open>Basic facts about the collaborators\<close>

lemma matches_uid: "matches [Field_is ''uid'' u] = (\<lambda>s. JStr (uid s) = u)"
  by (rule ext) (simp add: matches_def field_def)

lemma matches_active: "matches [Field_is ''active'' (JBool b)] = (\<lambda>s. active s = b)"
  by (rule ext) (simp add: matches_def field_def)

lemma matches_empty: "matches [] = (\<lambda>s. True)"
  by (rule ext) (simp add: matches_def)

lemma db_called_fields [simp]:
  "store (db_called c w) = store w"
  "reg_log (db_called c w) = reg_log w"
  "db_fault (db_called c w) = db_fault w"
  "globals (db_called c w) = globals w"
  "handlers (db_called c w) = handlers w"
  "job_log (db_called c w) = job_log w"
  "db_log (db_called c w) = db_log w @ [c]"
  by (simp_all add: db_called_def)

lemma dao_loadByValue_uid:
  "dao_loadByValue ''uid'' u w =
     (db_called (Load [Field_is ''uid'' u]) w, db_reply w (site_with_uid u (store w)))"
  by (simp add: dao_loadByValue_def dao_loadByValues_def matches_uid site_with_uid_def)

lemma site_with_uid_None: "(site_with_uid u st = None) = (\<not> (\<exists>s \<in> set st. JStr (uid s) = u))"
  by (auto simp: site_with_uid_def find_None_iff)

lemma site_with_uid_Some:
  "site_with_uid u st = Some s \<Longrightarrow> s \<in> set st \<and> JStr (uid s) = u"
  by (auto simp: site_with_uid_def find_Some_iff)

lemma getAllSites_eq:
  "getAllSites w = (db_called (Query []) w, db_reply w (store w))"
  by (simp add: getAllSites_def dao_q_def matches_empty)

lemma example_world_fields:
  "store example_world = [acme, beta]"
  "db_fault example_world = None"
  "reg_log example_world = []"
  "globals example_world = []"
  "handlers example_world = []"
  "job_log example_world = []"
  by (simp_all add: example_world_def fresh_world_def)

section \<open>getByUid\<close>

text \<open>
  C6. For a uid that is falsy or equal to \<open>'global'\<close>, \<open>getByUid\<close> leaves the process
  state as it is (no call to the database is made) and hands the callback the literal
  \<open>{displayName: siteName, hostname: siteRoot, uid: 'global'}\<close>. For every other uid it
  makes one load by that uid and hands the callback what the database answers: the error,
  the first record with that uid, or nothing.
\<close>

theorem getByUid_global_or_load:
  "(\<not> truthy u \<or> u = JStr ''global'' \<longrightarrow>
       getByUid cfg u w =
         (w, Inr (Literal [(''displayName'', JStr (siteName cfg)),
                           (''hostname'', JStr (siteRoot cfg)),
                           (''uid'', JStr ''global'')])))
   \<and> (\<not> (\<not> truthy u \<or> u = JStr ''global'') \<longrightarrow>
       getByUid cfg u w =
         (db_called (Load [Field_is ''uid'' u]) w,
          case db_fault w of
            Some e \<Rightarrow> Inl e
          | None \<Rightarrow> Inr (case site_with_uid u (store w) of
                          None \<Rightarrow> Nothing | Some s \<Rightarrow> Document s)))"
  by (auto simp: getByUid_def strict_eq_def GLOBAL_SITE_def dao_loadByValues_def matches_uid
        db_reply_def site_with_uid_def split: option.splits)

theorem getByUid_global_or_load_witness:
  "truthy (JStr []) = False
   \<and> getByUid example_config (JStr []) example_world =
       (example_world, Inr (Literal [(''displayName'', JStr ''pencilblue''),
                                     (''hostname'', JStr ''http://localhost:8080''),
                                     (''uid'', JStr ''global'')]))
   \<and> getByUid example_config (JStr ''global'') example_world =
       getByUid example_config (JStr []) example_world
   \<and> getByUid example_config (JStr ''x'') example_world =
       (db_called (Load [Field_is ''uid'' (JStr ''x'')]) example_world, Inr (Document acme))"
proof -
  have g1: "\<not> truthy (JStr []) \<or> JStr [] = JStr ''global''" by simp
  have g2: "\<not> truthy (JStr ''global'') \<or> JStr ''global'' = JStr ''global''" by simp
  have g3: "\<not> (\<not> truthy (JStr ''x'') \<or> JStr ''x'' = JStr ''global'')" by simp
  have c1: "getByUid example_config (JStr []) example_world =
       (example_world, Inr (Literal [(''displayName'', JStr ''pencilblue''),
                                     (''hostname'', JStr ''http://localhost:8080''),
                                     (''uid'', JStr ''global'')]))"
    using getByUid_global_or_load[of "JStr []" example_config example_world] g1
    by (simp add: example_config_def)
  have c2: "getByUid example_config (JStr ''global'') example_world =
       (example_world, Inr (Literal [(''displayName'', JStr ''pencilblue''),
                                     (''hostname'', JStr ''http://localhost:8080''),
                                     (''uid'', JStr ''global'')]))"
    using getByUid_global_or_load[of "JStr ''global''" example_config example_world] g2
    by (simp add: example_config_def)
  have c3: "getByUid example_config (JStr ''x'') example_world =
       (db_called (Load [Field_is ''uid'' (JStr ''x'')]) example_world, Inr (Document acme))"
    using getByUid_global_or_load[of "JStr ''x''" example_config example_world] g3
    by (simp add: example_world_fields site_with_uid_def acme_def beta_def)
  show ?thesis using c1 c2 c3 by simp
qed

section \<open>getSiteMap\<close>

lemma getSiteMap_ok:
  assumes "db_fault w = None"
  shows "getSiteMap w =
     (db_called (Query [Field_is ''active'' (JBool False)])
        (db_called (Query [Field_is ''active'' (JBool True)]) w),
      None,
      [(''active'', Some (filter (\<lambda>s. active s = True) (store w))),
       (''inactive'', Some (filter (\<lambda>s. active s = False) (store w)))])"
  using assms
  by (simp add: getSiteMap_def async_series_def getActiveSites_def getInactiveSites_def
        dao_q_def db_reply_def matches_active)

lemma active_split_mset:
  "mset (filter (\<lambda>s. active s = True) st) + mset (filter (\<lambda>s. active s = False) st) = mset st"
  by (induction st) simp_all

text \<open>
  C7. When the database answers, \<open>getSiteMap\<close> calls back without error with
  \<open>{active, inactive}\<close> after two queries, \<open>{active: true}\<close> then \<open>{active: false}\<close>,
  where \<open>active\<close> is what \<open>getActiveSites\<close> returns, the stored
  records whose flag is true in stored order, and \<open>inactive\<close> is what \<open>getInactiveSites\<close>
  returns, the stored records whose flag is false. The two lists partition what
  \<open>getAllSites\<close> returns over the same collection: together they hold every record as
  often as the collection does, their union is the set of all records, they share no
  record, and every record is in exactly one of them, the one its flag says. The
  collection itself is left as it was.
\<close>

theorem getSiteMap_partition:
  assumes "db_fault w = None"
  shows "\<exists>w1 w2 act inact all.
           getSiteMap w = (w1, None, [(''active'', Some act), (''inactive'', Some inact)])
         \<and> getAllSites w = (w2, Inr all)
         \<and> all = store w
         \<and> store w1 = store w
         \<and> db_log w1 = db_log w @ [Query [Field_is ''active'' (JBool True)],
                                  Query [Field_is ''active'' (JBool False)]]
         \<and> snd (getActiveSites w) = Inr act
         \<and> snd (getInactiveSites w) = Inr inact
         \<and> act = filter (\<lambda>s. active s) all
         \<and> inact = filter (\<lambda>s. \<not> active s) all
         \<and> mset act + mset inact = mset all
         \<and> set act \<union> set inact = set all
         \<and> set act \<inter> set inact = {}
         \<and> (\<forall>s \<in> set all. (s \<in> set act) = active s \<and> (s \<in> set inact) = (\<not> active s))
         \<and> (\<forall>s \<in> set all. (s \<in> set act) \<noteq> (s \<in> set inact))"
proof -
  let ?act = "filter (\<lambda>s. active s) (store w)"
  let ?inact = "filter (\<lambda>s. \<not> active s) (store w)"
  have m: "getSiteMap w =
     (db_called (Query [Field_is ''active'' (JBool False)])
        (db_called (Query [Field_is ''active'' (JBool True)]) w),
      None, [(''active'', Some ?act), (''inactive'', Some ?inact)])"
    using getSiteMap_ok[OF assms] by simp
  have a: "getAllSites w = (db_called (Query []) w, Inr (store w))"
    using assms by (simp add: getAllSites_eq db_reply_def)
  have ga: "snd (getActiveSites w) = Inr ?act"
    using assms by (simp add: getActiveSites_def dao_q_def db_reply_def matches_active)
  have gi: "snd (getInactiveSites w) = Inr ?inact"
    using assms by (simp add: getInactiveSites_def dao_q_def db_reply_def matches_active)
  have ms: "mset ?act + mset ?inact = mset (store w)"
    using active_split_mset[of "store w"] by simp
  have un: "set ?act \<union> set ?inact = set (store w)" by auto
  have di: "set ?act \<inter> set ?inact = {}" by auto
  have fl: "\<forall>s \<in> set (store w). (s \<in> set ?act) = active s \<and> (s \<in> set ?inact) = (\<not> active s)"
    by simp
  have ex: "\<forall>s \<in> set (store w). (s \<in> set ?act) \<noteq> (s \<in> set ?inact)" by auto
  have st: "store (db_called (Query [Field_is ''active'' (JBool False)])
        (db_called (Query [Field_is ''active'' (JBool True)]) w)) = store w"
    by simp
  have lg: "db_log (db_called (Query [Field_is ''active'' (JBool False)])
        (db_called (Query [Field_is ''active'' (JBool True)]) w)) =
      db_log w @ [Query [Field_is ''active'' (JBool True)],
                  Query [Field_is ''active'' (JBool False)]]"
    by simp
  show ?thesis
    using m a st lg ga gi ms un di fl ex by blast
qed

theorem getSiteMap_partition_witness:
  "db_fault example_world = None
   \<and> (\<exists>w1 w2 act inact all.
           getSiteMap example_world =
             (w1, None, [(''active'', Some act), (''inactive'', Some inact)])
         \<and> getAllSites example_world = (w2, Inr all)
         \<and> all = [acme, beta]
         \<and> act = [acme]
         \<and> inact = [beta]
         \<and> mset act + mset inact = mset all
         \<and> set act \<inter> set inact = {})"
proof -
  have f: "db_fault example_world = None"
    by (simp add: example_world_fields)
  from getSiteMap_partition[OF f] obtain w1 w2 act inact all where
    m: "getSiteMap example_world =
          (w1, None, [(''active'', Some act), (''inactive'', Some inact)])"
    and a: "getAllSites example_world = (w2, Inr all)"
    and al: "all = store example_world"
    and ac: "act = filter (\<lambda>s. active s) all"
    and ia: "inact = filter (\<lambda>s. \<not> active s) all"
    and ms: "mset act + mset inact = mset all"
    and di: "set act \<inter> set inact = {}"
    by blast
  have al': "all = [acme, beta]"
    by (simp add: al example_world_fields)
  have ac': "act = [acme]"
    by (simp add: ac al' acme_def beta_def)
  have ia': "inact = [beta]"
    by (simp add: ia al' acme_def beta_def)
  show ?thesis
    using f m a al' ac' ia' ms di by blast
qed

section \<open>Uniqueness Validator\<close>

lemma lower_char_idem: "lower_char (lower_char c) = lower_char c"
proof -
  let ?n = "of_char c :: nat"
  show ?thesis
  proof (cases "65 \<le> ?n \<and> ?n \<le> 90")
    case True
    then have "of_char (char_of (?n + 32) :: char) = ?n + 32"
      by (simp add: take_bit_eq_mod)
    with True show ?thesis by (simp add: lower_char_def Let_def)
  next
    case False
    then show ?thesis by (auto simp: lower_char_def Let_def)
  qed
qed

lemma toLowerCase_idem: "toLowerCase (toLowerCase s) = toLowerCase s"
  by (simp add: toLowerCase_def lower_char_idem)

lemma matches_displayName:
  "matches (getWhere x [Field_matches ''displayName'' (Anchored (toLowerCase dn) True)]) =
     (\<lambda>s. toLowerCase (displayName s) = toLowerCase dn \<and> not_excluded x s)"
  by (rule ext) (simp add: matches_def getWhere_def field_def not_excluded_def toLowerCase_idem
        split: option.splits)

lemma matches_hostname:
  "matches (getWhere x [Field_is ''hostname'' (JStr (toLowerCase hn))]) =
     (\<lambda>s. hostname s = toLowerCase hn \<and> not_excluded x s)"
  by (rule ext) (simp add: matches_def getWhere_def field_def not_excluded_def
        split: option.splits)

lemma counts_ok:
  assumes "db_fault w = None"
  shows "getExistingDisplayNameHostnameCounts dn hn x w =
     (db_called (Count (getWhere x [Field_is ''hostname'' (JStr (toLowerCase hn))]))
        (db_called (Count (getWhere x
            [Field_matches ''displayName'' (Anchored (toLowerCase dn) True)])) w),
      None,
      [(''displayName'', Some (displayName_count dn x (store w))),
       (''hostname'', Some (hostname_count hn x (store w)))])"
  using assms
  by (simp add: getExistingDisplayNameHostnameCounts_def async_parallel_def dao_count_def
        db_reply_def matches_displayName matches_hostname displayName_count_def
        hostname_count_def)

lemma taken_result_two:
  "taken_result (Some [(k1, Some n), (k2, Some m)]) = JNum (if 0 < n \<or> 0 < m then 1 else 0)"
  by (simp add: taken_result_def or_assign_def gt_zero_def)

lemma taken_ok:
  assumes "db_fault w = None"
  shows "isDisplayNameOrHostnameTaken dn hn x w =
     (fst (getExistingDisplayNameHostnameCounts dn hn x w), None,
      JNum (if 0 < displayName_count dn x (store w) \<or> 0 < hostname_count hn x (store w)
            then 1 else 0))"
  by (simp add: isDisplayNameOrHostnameTaken_def counts_ok[OF assms] taken_result_two)



text \<open>
  The call with three arguments does not report a verdict: the function passed receives
  the counts object itself, which is truthy whatever the counts are.
\<close>

lemma isDisplayNameOrHostnameTaken_three_arguments_counts:
  assumes "db_fault w = None"
  shows "snd (isDisplayNameOrHostnameTaken_three_arguments dn hn w) =
     (None, [(''displayName'', Some (displayName_count dn None (store w))),
             (''hostname'', Some (hostname_count hn None (store w)))])"
  by (simp add: isDisplayNameOrHostnameTaken_three_arguments_def counts_ok[OF assms])

text \<open>A display name that is only a part of a stored one is not counted.\<close>

lemma displayName_count_not_substring:
  "displayName_count ''Acm'' None [acme, beta] = 0
   \<and> displayName_count ''aCME'' None [acme, beta] = 1
   \<and> displayName_count ''aCME'' (Some 1) [acme, beta] = 0"
  unfolding acme_def beta_def by code_simp

section \<open>createSite\<close>

lemma fold_max_ge_init: "(a::nat) \<le> fold max xs a"
proof (induction xs arbitrary: a)
  case Nil
  show ?case by simp
next
  case (Cons x xs)
  have "a \<le> max x a" by simp
  also have "\<dots> \<le> fold max xs (max x a)" by (rule Cons.IH)
  finally show ?case by simp
qed

lemma fold_max_ge_elem: "(x::nat) \<in> set xs \<Longrightarrow> x \<le> fold max xs a"
proof (induction xs arbitrary: a)
  case Nil
  then show ?case by simp
next
  case (Cons y ys)
  show ?case
  proof (cases "x = y")
    case True
    have "x \<le> max y a" using True by simp
    also have "\<dots> \<le> fold max ys (max y a)" by (rule fold_max_ge_init)
    finally show ?thesis by simp
  next
    case False
    with Cons.prems have "x \<in> set ys" by simp
    then show ?thesis using Cons.IH by simp
  qed
qed

lemma next_oid_fresh: "r \<in> set st \<Longrightarrow> oid r \<noteq> Some (next_oid st)"
proof
  assume r: "r \<in> set st" and eq: "oid r = Some (next_oid st)"
  let ?ids = "map (\<lambda>s. case oid s of None \<Rightarrow> 0 | Some i \<Rightarrow> i) st"
  from r eq have "next_oid st \<in> set ?ids" by force
  then have "next_oid st \<le> fold max ?ids 0" by (rule fold_max_ge_elem)
  then show False by (simp add: next_oid_def)
qed

lemma dao_save_new:
  assumes "db_fault w = None" and "oid s = None"
  shows "dao_save s w =
     ((db_called (Save s) w)\<lparr>store := store w @ [s\<lparr>oid := Some (next_oid (store w))\<rparr>]\<rparr>,
      Inr (s\<lparr>oid := Some (next_oid (store w))\<rparr>))"
proof -
  have "\<not> list_ex (\<lambda>r. oid r = Some (next_oid (store w))) (store w)"
    by (auto simp: list_ex_iff dest: next_oid_fresh)
  with assms show ?thesis by (simp add: dao_save_def Let_def)
qed

lemma counts_store [simp]:
  "store (fst (getExistingDisplayNameHostnameCounts dn hn x w)) = store w"
  by (simp add: getExistingDisplayNameHostnameCounts_def async_parallel_def dao_count_def
        split: sum.splits)

lemma counts_db_fault [simp]:
  "db_fault (fst (getExistingDisplayNameHostnameCounts dn hn x w)) = db_fault w"
  by (simp add: getExistingDisplayNameHostnameCounts_def async_parallel_def dao_count_def
        split: sum.splits)

text \<open>
  The part of the creation that works as intended, on ASCII text: when the validator finds
  a collision (a display name equal up to letter case, or a stored hostname equal to the
  proposed one in lower case), nothing is written and the callback is told so.
\<close>

lemma createSite_taken_no_write:
  assumes "db_fault w = None"
    and "is_ascii (displayName site0)"
    and "is_ascii (hostname site0)"
    and "\<forall>r \<in> set (store w). is_ascii (displayName r)"
    and "0 < displayName_count (displayName site0) x (store w)
         \<or> 0 < hostname_count (hostname site0) x (store w)"
  shows "store (fst (createSite new_uid site0 x w)) = store w
       \<and> snd (createSite new_uid site0 x w) =
           \<lparr>c_err = None, c_isTaken = JNum 1, c_field = JUndefined, c_result = None\<rparr>"
  using assms by (simp add: createSite_def taken_ok)

text \<open>
  C4. The hostname of the proposal is put in lower case before it is compared, the stored
  hostnames are not, and \<open>createSite\<close> stores a hostname as it is given. So a proposal
  whose hostname is that of a stored record, letter for letter, is not seen as a collision
  when that hostname has a capital letter: if no stored hostname equals the proposed one
  in lower case and no stored display name matches, the validator reports nothing and the
  site is written, a second record with the same hostname. The proposal and the stored
  display names are ASCII text, where \<open>toLowerCase\<close> is what the code computes.
\<close>

theorem createSite_same_hostname_written:
  assumes "db_fault w = None"
    and "oid site0 = None"
    and "s \<in> set (store w)"
    and "hostname s = hostname site0"
    and "\<forall>r \<in> set (store w). hostname r \<noteq> toLowerCase (hostname site0)"
    and "\<forall>r \<in> set (store w). toLowerCase (displayName r) \<noteq> toLowerCase (displayName site0)"
    and "is_ascii (hostname site0)"
    and "is_ascii (displayName site0)"
    and "\<forall>r \<in> set (store w). is_ascii (displayName r)"
  shows "store (fst (createSite new_uid site0 None w)) =
           store w @ [site0\<lparr>active := False, uid := new_uid,
                            oid := Some (next_oid (store w))\<rparr>]
       \<and> c_err (snd (createSite new_uid site0 None w)) = None
       \<and> c_isTaken (snd (createSite new_uid site0 None w)) = JBool False"
proof -
  have dn: "displayName_count (displayName site0) None (store w) = 0"
    using assms(6) by (simp add: displayName_count_def filter_empty_conv)
  have hn: "hostname_count (hostname site0) None (store w) = 0"
    using assms(5) by (simp add: hostname_count_def filter_empty_conv)
  have taken: "isDisplayNameOrHostnameTaken (displayName site0) (hostname site0) None w =
      (fst (getExistingDisplayNameHostnameCounts (displayName site0) (hostname site0) None w),
       None, JNum 0)"
    using taken_ok[OF assms(1), of "displayName site0" "hostname site0" None] dn hn by simp
  let ?w1 = "fst (getExistingDisplayNameHostnameCounts (displayName site0) (hostname site0) None w)"
  have save: "dao_save (site0\<lparr>active := False, uid := new_uid\<rparr>) ?w1 =
      ((db_called (Save (site0\<lparr>active := False, uid := new_uid\<rparr>)) ?w1)
         \<lparr>store := store w @ [site0\<lparr>active := False, uid := new_uid,
                                     oid := Some (next_oid (store w))\<rparr>]\<rparr>,
       Inr (site0\<lparr>active := False, uid := new_uid, oid := Some (next_oid (store w))\<rparr>))"
    using dao_save_new[of ?w1 "site0\<lparr>active := False, uid := new_uid\<rparr>"] assms(1,2)
    by simp
  show ?thesis
    by (simp add: createSite_def Let_def taken save)
qed

theorem createSite_same_hostname_written_witness:
  "mixed \<in> set (store (fresh_world [mixed]))
   \<and> hostname mixed = hostname proposed
   \<and> is_ascii (hostname proposed)
   \<and> is_ascii (displayName proposed)
   \<and> is_ascii (displayName mixed)
   \<and> store (fst (createSite ''u2'' proposed None (fresh_world [mixed]))) =
       [mixed,
        \<lparr>oid = Some 2, uid = ''u2'', displayName = ''Y'', hostname = ''A.com'', active = False\<rparr>]
   \<and> c_err (snd (createSite ''u2'' proposed None (fresh_world [mixed]))) = None
   \<and> c_isTaken (snd (createSite ''u2'' proposed None (fresh_world [mixed]))) = JBool False"
proof -
  have st: "store (fresh_world [mixed]) = [mixed]"
    by (simp add: fresh_world_def)
  have f: "db_fault (fresh_world [mixed]) = None"
    by (simp add: fresh_world_def)
  have o: "oid proposed = None"
    by (simp add: proposed_def)
  have m: "mixed \<in> set (store (fresh_world [mixed]))"
    by (simp add: st)
  have h: "hostname mixed = hostname proposed"
    by (simp add: mixed_def proposed_def)
  have lo: "toLowerCase (hostname proposed) = ''a.com''"
    unfolding proposed_def by code_simp
  have nh: "\<forall>r \<in> set (store (fresh_world [mixed])). hostname r \<noteq> toLowerCase (hostname proposed)"
    by (simp add: st lo) (simp add: mixed_def)
  have dx: "toLowerCase (displayName mixed) = ''x''"
    unfolding mixed_def by code_simp
  have dy: "toLowerCase (displayName proposed) = ''y''"
    unfolding proposed_def by code_simp
  have nd: "\<forall>r \<in> set (store (fresh_world [mixed])).
              toLowerCase (displayName r) \<noteq> toLowerCase (displayName proposed)"
    by (simp add: st dx dy)
  have n: "next_oid [mixed] = 2"
    by (simp add: next_oid_def mixed_def)
  have ah: "is_ascii (hostname proposed)"
    unfolding proposed_def by code_simp
  have ad: "is_ascii (displayName proposed)"
    unfolding proposed_def by code_simp
  have am: "is_ascii (displayName mixed)"
    unfolding mixed_def by code_simp
  have ast: "\<forall>r \<in> set (store (fresh_world [mixed])). is_ascii (displayName r)"
    using am by (simp add: st)
  from createSite_same_hostname_written[OF f o m h nh nd ah ad ast, of "''u2''"]
  have w: "store (fst (createSite ''u2'' proposed None (fresh_world [mixed]))) =
       [mixed,
        \<lparr>oid = Some 2, uid = ''u2'', displayName = ''Y'', hostname = ''A.com'', active = False\<rparr>]
     \<and> c_err (snd (createSite ''u2'' proposed None (fresh_world [mixed]))) = None
     \<and> c_isTaken (snd (createSite ''u2'' proposed None (fresh_world [mixed]))) = JBool False"
    by (simp add: st n) (simp add: proposed_def)
  show ?thesis
    using m h ah ad am w by blast
qed

text \<open>
  The stored record of the example is itself what \<open>createSite\<close> writes for the hostname
  \<open>A.com\<close> on an empty collection.
\<close>

lemma createSite_stores_hostname_as_given:
  "store (fst (createSite ''u1'' (proposed\<lparr>displayName := ''X''\<rparr>) None (fresh_world []))) = [mixed]"
  unfolding proposed_def mixed_def by code_simp

section \<open>startAcceptingSiteTraffic\<close>

lemma rh_activateSite_fields [simp]:
  "store (rh_activateSite s w) = store w"
  "reg_log (rh_activateSite s w) = reg_log w @ [ActivateSite s]"
  "db_fault (rh_activateSite s w) = db_fault w"
  "globals (rh_activateSite s w) = globals w"
  by (simp_all add: rh_activateSite_def)

text \<open>Whatever happens, the call writes nothing to the collection.\<close>

lemma startAcceptingSiteTraffic_never_writes:
  "store (fst (startAcceptingSiteTraffic u w)) = store w"
  by (simp add: startAcceptingSiteTraffic_def dao_loadByValue_uid db_reply_def Let_def
        split: option.splits sum.splits)

text \<open>
  C3. When the database answers: if no record has the uid, the callback receives the error
  "Site not found"; if the record loaded for the uid has \<open>active = false\<close>, it receives
  "Site not active". In both cases the Routing Registry receives no call and the
  collection is unchanged.
\<close>

theorem startAcceptingSiteTraffic_failures:
  assumes "db_fault w = None"
  shows "(\<not> (\<exists>s \<in> set (store w). JStr (uid s) = u) \<longrightarrow>
            snd (startAcceptingSiteTraffic u w) = Called (Some ''Site not found'') JNull
            \<and> reg_log (fst (startAcceptingSiteTraffic u w)) = reg_log w
            \<and> store (fst (startAcceptingSiteTraffic u w)) = store w)
       \<and> (\<forall>s. site_with_uid u (store w) = Some s \<and> \<not> active s \<longrightarrow>
            snd (startAcceptingSiteTraffic u w) = Called (Some ''Site not active'') JNull
            \<and> reg_log (fst (startAcceptingSiteTraffic u w)) = reg_log w
            \<and> store (fst (startAcceptingSiteTraffic u w)) = store w)"
proof (intro conjI impI allI)
  assume "\<not> (\<exists>s \<in> set (store w). JStr (uid s) = u)"
  then have none: "site_with_uid u (store w) = None"
    by (simp add: site_with_uid_None)
  have run: "startAcceptingSiteTraffic u w =
      (db_called (Load [Field_is ''uid'' u]) w, Called (Some ''Site not found'') JNull)"
    using assms none by (simp add: startAcceptingSiteTraffic_def dao_loadByValue_uid db_reply_def)
  show "snd (startAcceptingSiteTraffic u w) = Called (Some ''Site not found'') JNull"
    by (simp add: run)
  show "reg_log (fst (startAcceptingSiteTraffic u w)) = reg_log w"
    by (simp add: run)
  show "store (fst (startAcceptingSiteTraffic u w)) = store w"
    by (simp add: run)
next
  fix s
  assume found: "site_with_uid u (store w) = Some s \<and> \<not> active s"
  have run: "startAcceptingSiteTraffic u w =
      (db_called (Load [Field_is ''uid'' u]) w, Called (Some ''Site not active'') JNull)"
    using assms found by (simp add: startAcceptingSiteTraffic_def dao_loadByValue_uid db_reply_def)
  show "snd (startAcceptingSiteTraffic u w) = Called (Some ''Site not active'') JNull"
    by (simp add: run)
  show "reg_log (fst (startAcceptingSiteTraffic u w)) = reg_log w"
    by (simp add: run)
  show "store (fst (startAcceptingSiteTraffic u w)) = store w"
    by (simp add: run)
qed

theorem startAcceptingSiteTraffic_failures_witness:
  "db_fault example_world = None
   \<and> snd (startAcceptingSiteTraffic (JStr ''z'') example_world) =
       Called (Some ''Site not found'') JNull
   \<and> reg_log (fst (startAcceptingSiteTraffic (JStr ''z'') example_world)) = []
   \<and> site_with_uid (JStr ''y'') (store example_world) = Some beta
   \<and> active beta = False
   \<and> snd (startAcceptingSiteTraffic (JStr ''y'') example_world) =
       Called (Some ''Site not active'') JNull
   \<and> reg_log (fst (startAcceptingSiteTraffic (JStr ''y'') example_world)) = []
   \<and> store (fst (startAcceptingSiteTraffic (JStr ''y'') example_world)) = [acme, beta]"
proof -
  have f: "db_fault example_world = None"
    by (simp add: example_world_fields)
  have p1: "\<not> (\<exists>s \<in> set (store example_world). JStr (uid s) = JStr ''z'')"
    by (simp add: example_world_fields acme_def beta_def)
  have p2: "site_with_uid (JStr ''y'') (store example_world) = Some beta \<and> \<not> active beta"
    by (simp add: example_world_fields site_with_uid_def acme_def beta_def)
  have c1: "snd (startAcceptingSiteTraffic (JStr ''z'') example_world) =
              Called (Some ''Site not found'') JNull
            \<and> reg_log (fst (startAcceptingSiteTraffic (JStr ''z'') example_world)) =
              reg_log example_world"
    using startAcceptingSiteTraffic_failures[OF f, where u = "JStr ''z''"] p1 by blast
  have c2: "snd (startAcceptingSiteTraffic (JStr ''y'') example_world) =
              Called (Some ''Site not active'') JNull
            \<and> reg_log (fst (startAcceptingSiteTraffic (JStr ''y'') example_world)) =
              reg_log example_world
            \<and> store (fst (startAcceptingSiteTraffic (JStr ''y'') example_world)) =
              store example_world"
    using startAcceptingSiteTraffic_failures[OF f, where u = "JStr ''y''"] p2 by blast
  show ?thesis using f c1 c2 p2 by (simp add: example_world_fields)
qed

text \<open>
  C2. For a uid whose record exists and is active, the collection is left as it is and the
  Routing Registry receives \<open>activateSite\<close> with the loaded record; but the success branch
  then reads the identifier \<open>result\<close>, which no enclosing function declares. Unless the
  global object happens to hold a property of that name, a \<open>ReferenceError\<close> is thrown and
  the callback is never invoked.
\<close>

theorem startAcceptingSiteTraffic_throws:
  assumes "db_fault w = None"
    and "site_with_uid u (store w) = Some s"
    and "active s"
    and "map_of (globals w) ''result'' = None"
  shows "snd (startAcceptingSiteTraffic u w) = Threw ''ReferenceError: result is not defined''
       \<and> reg_log (fst (startAcceptingSiteTraffic u w)) = reg_log w @ [ActivateSite s]
       \<and> store (fst (startAcceptingSiteTraffic u w)) = store w"
proof -
  have "startAcceptingSiteTraffic u w =
           (rh_activateSite s (db_called (Load [Field_is ''uid'' u]) w),
            Threw ''ReferenceError: result is not defined'')"
    using assms
    by (simp add: startAcceptingSiteTraffic_def dao_loadByValue_uid db_reply_def
          read_global_def Let_def)
  then show ?thesis by simp
qed

theorem startAcceptingSiteTraffic_throws_witness:
  "db_fault example_world = None
   \<and> site_with_uid (JStr ''x'') (store example_world) = Some acme
   \<and> active acme
   \<and> map_of (globals example_world) ''result'' = None
   \<and> snd (startAcceptingSiteTraffic (JStr ''x'') example_world) =
       Threw ''ReferenceError: result is not defined''
   \<and> reg_log (fst (startAcceptingSiteTraffic (JStr ''x'') example_world)) = [ActivateSite acme]
   \<and> store (fst (startAcceptingSiteTraffic (JStr ''x'') example_world)) = [acme, beta]"
proof -
  have f: "db_fault example_world = None"
    by (simp add: example_world_fields)
  have p: "site_with_uid (JStr ''x'') (store example_world) = Some acme"
    by (simp add: example_world_fields site_with_uid_def acme_def beta_def)
  have a: "active acme" by (simp add: acme_def)
  have g: "map_of (globals example_world) ''result'' = None"
    by (simp add: example_world_fields)
  from startAcceptingSiteTraffic_throws[OF f p a g]
  show ?thesis
    using f p a g by (simp add: example_world_fields)
qed

text \<open>
  Only a global variable \<open>result\<close>, set somewhere else, lets the callback run; it then
  receives that unrelated value, not the loaded site.
\<close>

lemma startAcceptingSiteTraffic_with_global_result:
  assumes "db_fault w = None"
    and "site_with_uid u (store w) = Some s"
    and "active s"
    and "map_of (globals w) ''result'' = Some v"
  shows "snd (startAcceptingSiteTraffic u w) = Called None v"
  using assms
  by (simp add: startAcceptingSiteTraffic_def dao_loadByValue_uid db_reply_def
        read_global_def Let_def)

section \<open>initSites\<close>

lemma rh_loadSite_fields [simp]:
  "store (rh_loadSite s w) = store w"
  "reg_log (rh_loadSite s w) = reg_log w @ [LoadSite s]"
  "db_log (rh_loadSite s w) = db_log w"
  by (simp_all add: rh_loadSite_def)

lemma fold_rh_loadSite_store: "store (fold rh_loadSite xs w) = store w"
  by (induction xs arbitrary: w) simp_all

lemma fold_rh_loadSite_reg_log: "reg_log (fold rh_loadSite xs w) = reg_log w @ map LoadSite xs"
  by (induction xs arbitrary: w) simp_all

text \<open>
  C9. With multisite enabled and no global root configured, \<open>initSites\<close> calls back with
  the configuration error and \<open>false\<close>, and the process state is untouched: nothing was
  loaded, nothing registered. Otherwise, when the database answers, it calls back with
  \<open>true\<close> and no error, and the Routing Registry has received \<open>loadSite\<close> for every
  stored site, in order and whatever its active flag, followed by \<open>loadSite\<close> for the
  global entry: uid and display name \<open>'global'\<close>, the host of the configured root
  (the global root under multisite, the site root otherwise), active exactly when
  multisite is off.
\<close>

theorem initSites_behaviour:
  "(multisite_enabled cfg \<and> multisite_globalRoot cfg = [] \<longrightarrow>
      initSites url_host cfg w =
        (w, Called (Some ''A Global Hostname must be configured with multisite turned on.'')
                   (JBool False)))
   \<and> (\<not> (multisite_enabled cfg \<and> multisite_globalRoot cfg = []) \<and> db_fault w = None \<longrightarrow>
        snd (initSites url_host cfg w) = Called None (JBool True)
        \<and> reg_log (fst (initSites url_host cfg w)) =
            reg_log w @ map LoadSite (store w) @ [LoadSite (global_entry url_host cfg)]
        \<and> store (fst (initSites url_host cfg w)) = store w
        \<and> uid (global_entry url_host cfg) = ''global''
        \<and> displayName (global_entry url_host cfg) = ''global''
        \<and> hostname (global_entry url_host cfg) =
            url_host (if multisite_enabled cfg then multisite_globalRoot cfg else siteRoot cfg)
        \<and> active (global_entry url_host cfg) = (\<not> multisite_enabled cfg))"
proof (intro conjI impI)
  assume "multisite_enabled cfg \<and> multisite_globalRoot cfg = []"
  then show "initSites url_host cfg w =
        (w, Called (Some ''A Global Hostname must be configured with multisite turned on.'')
                   (JBool False))"
    by (simp add: initSites_def)
next
  assume a: "\<not> (multisite_enabled cfg \<and> multisite_globalRoot cfg = []) \<and> db_fault w = None"
  then have run: "initSites url_host cfg w =
      (rh_loadSite (global_entry url_host cfg)
         (fold rh_loadSite (store w) (db_called (Query []) w)), Called None (JBool True))"
    by (auto simp: initSites_def getAllSites_eq db_reply_def Let_def)
  show "snd (initSites url_host cfg w) = Called None (JBool True)"
    by (simp add: run)
  show "reg_log (fst (initSites url_host cfg w)) =
            reg_log w @ map LoadSite (store w) @ [LoadSite (global_entry url_host cfg)]"
    by (simp add: run fold_rh_loadSite_reg_log)
  show "store (fst (initSites url_host cfg w)) = store w"
    by (simp add: run fold_rh_loadSite_store)
next
  show "uid (global_entry url_host cfg) = ''global''"
    by (simp add: global_entry_def GLOBAL_SITE_def)
  show "displayName (global_entry url_host cfg) = ''global''"
    by (simp add: global_entry_def GLOBAL_SITE_def)
  show "hostname (global_entry url_host cfg) =
            url_host (if multisite_enabled cfg then multisite_globalRoot cfg else siteRoot cfg)"
    by (simp add: global_entry_def)
  show "active (global_entry url_host cfg) = (\<not> multisite_enabled cfg)"
    by (simp add: global_entry_def)
qed

theorem initSites_behaviour_witness:
  "initSites (drop 7) broken_config example_world =
     (example_world,
      Called (Some ''A Global Hostname must be configured with multisite turned on.'')
             (JBool False))
   \<and> snd (initSites (drop 7) example_config example_world) = Called None (JBool True)
   \<and> reg_log (fst (initSites (drop 7) example_config example_world)) =
       [LoadSite acme, LoadSite beta,
        LoadSite \<lparr>oid = None, uid = ''global'', displayName = ''global'',
                  hostname = ''localhost:8080'', active = True\<rparr>]"
proof -
  have b: "multisite_enabled broken_config \<and> multisite_globalRoot broken_config = []"
    by (simp add: broken_config_def)
  have e: "\<not> (multisite_enabled example_config \<and> multisite_globalRoot example_config = [])
           \<and> db_fault example_world = None"
    by (simp add: example_config_def example_world_fields)
  have c1: "initSites (drop 7) broken_config example_world =
     (example_world,
      Called (Some ''A Global Hostname must be configured with multisite turned on.'')
             (JBool False))"
    using initSites_behaviour[of broken_config "drop 7" example_world] b by blast
  have c2: "snd (initSites (drop 7) example_config example_world) = Called None (JBool True)
     \<and> reg_log (fst (initSites (drop 7) example_config example_world)) =
         reg_log example_world @ map LoadSite (store example_world)
           @ [LoadSite (global_entry (drop 7) example_config)]"
    using initSites_behaviour[of example_config "drop 7" example_world] e by blast
  have g: "global_entry (drop 7) example_config =
      \<lparr>oid = None, uid = ''global'', displayName = ''global'',
        hostname = ''localhost:8080'', active = True\<rparr>"
    by (simp add: global_entry_def example_config_def GLOBAL_SITE_def)
  show ?thesis using c1 c2 by (simp add: g example_world_fields)
qed

text \<open>When the database fails, the error is passed on and nothing is registered.\<close>

lemma initSites_db_failure:
  assumes "\<not> (multisite_enabled cfg \<and> multisite_globalRoot cfg = [])"
    and "db_fault w = Some e"
  shows "snd (initSites url_host cfg w) = Called (Some e) JUndefined
       \<and> reg_log (fst (initSites url_host cfg w)) = reg_log w"
  using assms by (auto simp: initSites_def getAllSites_eq db_reply_def)

section \<open>activateSite\<close>

lemma dao_save_existing:
  assumes "db_fault w = None" and "oid s = Some i" and "r \<in> set (store w)" and "oid r = Some i"
  shows "dao_save s w =
     ((db_called (Save s) w)\<lparr>store := map (\<lambda>r. if oid r = Some i then s else r) (store w)\<rparr>,
      Inr s)"
proof -
  have "list_ex (\<lambda>r. oid r = Some i) (store w)"
    using assms(3,4) by (auto simp: list_ex_iff)
  with assms(1,2) show ?thesis by (simp add: dao_save_def Let_def)
qed

lemma site_with_uid_replace:
  assumes "site_with_uid u st = Some s" and "uid s' = uid s"
  shows "site_with_uid u (map (\<lambda>r. if oid r = oid s then s' else r) st) = Some s'"
  using assms
proof (induction st)
  case Nil
  then show ?case by (simp add: site_with_uid_def)
next
  case (Cons x xs)
  show ?case
  proof (cases "JStr (uid x) = u")
    case True
    with Cons.prems have "x = s" by (simp add: site_with_uid_def)
    with True Cons.prems show ?thesis by (simp add: site_with_uid_def)
  next
    case False
    with Cons.prems have rest: "site_with_uid u xs = Some s" by (simp add: site_with_uid_def)
    then have "JStr (uid s) = u" by (simp add: site_with_uid_Some)
    with False Cons.IH[OF rest Cons.prems(2)] Cons.prems(2) show ?thesis
      by (simp add: site_with_uid_def)
  qed
qed

lemma replace_idem:
  assumes "oid s' = Some i"
  shows "map (\<lambda>r. if oid r = Some i then s' else r) (map (\<lambda>r. if oid r = Some i then s' else r) st)
         = map (\<lambda>r. if oid r = Some i then s' else r) st"
  using assms by (induction st) simp_all

lemma routing_table_snoc:
  "routing_table (calls @ [c]) = (routing_table calls)(hostname (call_site c) \<mapsto> call_site c)"
  by (simp add: routing_table_def)

text \<open>One run of an activation job on a stored site, field by field.\<close>

lemma job_run_activate:
  assumes "db_fault w = None"
    and "site_with_uid (JStr (job_site j)) (store w) = Some s"
    and "oid s = Some i"
    and "job_class j = SiteActivateJob"
  shows "\<exists>w'. job_run j w = (w', None, True)
           \<and> store w' = map (\<lambda>r. if oid r = Some i then s\<lparr>active := True\<rparr> else r) (store w)
           \<and> reg_log w' = reg_log w @ [ActivateSite (s\<lparr>active := True\<rparr>)]
           \<and> db_fault w' = None"
proof -
  let ?w0 = "w\<lparr>job_log := job_log w @ [j]\<rparr>"
  let ?w1 = "db_called (Load [Field_is ''uid'' (JStr (job_site j))]) ?w0"
  let ?s' = "s\<lparr>active := True\<rparr>"
  have mem: "s \<in> set (store ?w1)"
    using site_with_uid_Some[OF assms(2)] by simp
  have load: "dao_loadByValue ''uid'' (JStr (job_site j)) ?w0 = (?w1, Inr (Some s))"
    using assms(1,2) by (simp add: dao_loadByValue_uid db_reply_def)
  have save: "dao_save ?s' ?w1 =
      ((db_called (Save ?s') ?w1)\<lparr>store := map (\<lambda>r. if oid r = Some i then ?s' else r) (store ?w1)\<rparr>,
       Inr ?s')"
    by (rule dao_save_existing[where r = s]) (use assms mem in simp_all)
  show ?thesis
    by (simp add: job_run_def Let_def load save rh_activateSite_def broadcast_def assms(1,4))
qed

lemma activateSite_run:
  assumes "db_fault w = None" and "site_with_uid (JStr u) (store w) = Some s" and "oid s = Some i"
  shows "\<exists>w'. activateSite n u w = (w', (None, True), n)
           \<and> store w' = map (\<lambda>r. if oid r = Some i then s\<lparr>active := True\<rparr> else r) (store w)
           \<and> reg_log w' = reg_log w @ [ActivateSite (s\<lparr>active := True\<rparr>)]
           \<and> db_fault w' = None"
proof -
  define j where "j = \<lparr>job_class = SiteActivateJob, runAsInitiator = True,
             job_name = ''ACTIVATE_SITE_'' @ u, job_id = n, job_site = u\<rparr>"
  have js: "job_site j = u" and jc: "job_class j = SiteActivateJob" and ji: "job_id j = n"
    by (simp_all add: j_def)
  from job_run_activate[of w j s i] assms js jc obtain w' where
    "job_run j w = (w', None, True)"
    and "store w' = map (\<lambda>r. if oid r = Some i then s\<lparr>active := True\<rparr> else r) (store w)"
    and "reg_log w' = reg_log w @ [ActivateSite (s\<lparr>active := True\<rparr>)]"
    and "db_fault w' = None"
    by auto
  then show ?thesis
    unfolding activateSite_def j_def[symmetric] by (simp add: Let_def ji)
qed

text \<open>
  C8. For a uid with a stored record (one that has its database id), and the database
  answering, two activations in a row both complete with no error and result \<open>true\<close>.
  After the first, the record loaded for the uid is the stored one with \<open>active = true\<close>
  and the routing table maps its hostname to it; the second changes neither the collection
  nor the routing table.
\<close>

theorem activateSite_twice:
  assumes "db_fault w = None"
    and "site_with_uid (JStr u) (store w) = Some s"
    and "oid s \<noteq> None"
  shows "\<exists>w1 w2.
           activateSite n1 u w = (w1, (None, True), n1)
         \<and> activateSite n2 u w1 = (w2, (None, True), n2)
         \<and> site_with_uid (JStr u) (store w1) = Some (s\<lparr>active := True\<rparr>)
         \<and> store w2 = store w1
         \<and> routing_table (reg_log w1) (hostname s) = Some (s\<lparr>active := True\<rparr>)
         \<and> routing_table (reg_log w2) = routing_table (reg_log w1)"
proof -
  let ?s' = "s\<lparr>active := True\<rparr>"
  from assms(3) obtain i where i: "oid s = Some i" by auto
  let ?f = "\<lambda>r. if oid r = Some i then ?s' else r"
  from activateSite_run[OF assms(1,2) i, of n1] obtain w1 where
    r1: "activateSite n1 u w = (w1, (None, True), n1)"
    and st1: "store w1 = map ?f (store w)"
    and rg1: "reg_log w1 = reg_log w @ [ActivateSite ?s']"
    and f1: "db_fault w1 = None"
    by blast
  have found1: "site_with_uid (JStr u) (store w1) = Some ?s'"
    using site_with_uid_replace[OF assms(2), of ?s'] i by (simp add: st1)
  have i': "oid ?s' = Some i" using i by simp
  from activateSite_run[OF f1 found1 i', of n2] obtain w2 where
    r2: "activateSite n2 u w1 = (w2, (None, True), n2)"
    and st2: "store w2 = map ?f (store w1)"
    and rg2: "reg_log w2 = reg_log w1 @ [ActivateSite ?s']"
    by auto
  have same_store: "store w2 = store w1"
    using replace_idem[OF i', of "store w"] by (simp add: st2 st1)
  have t1: "routing_table (reg_log w1) (hostname s) = Some ?s'"
    by (simp add: rg1 routing_table_snoc)
  have "routing_table (reg_log w2) = (routing_table (reg_log w1))(hostname s \<mapsto> ?s')"
    by (simp add: rg2 routing_table_snoc)
  with t1 have t2: "routing_table (reg_log w2) = routing_table (reg_log w1)"
    by (simp add: map_upd_triv)
  show ?thesis
    using r1 r2 found1 same_store t1 t2 by blast
qed

theorem activateSite_twice_witness:
  "db_fault example_world = None
   \<and> site_with_uid (JStr ''y'') (store example_world) = Some beta
   \<and> oid beta = Some 2
   \<and> (\<exists>w1 w2.
           activateSite ''j1'' ''y'' example_world = (w1, (None, True), ''j1'')
         \<and> activateSite ''j2'' ''y'' w1 = (w2, (None, True), ''j2'')
         \<and> site_with_uid (JStr ''y'') (store w1) = Some (beta\<lparr>active := True\<rparr>)
         \<and> store w2 = store w1
         \<and> routing_table (reg_log w1) (hostname beta) = Some (beta\<lparr>active := True\<rparr>)
         \<and> routing_table (reg_log w2) = routing_table (reg_log w1))"
proof -
  have f: "db_fault example_world = None"
    by (simp add: example_world_fields)
  have p: "site_with_uid (JStr ''y'') (store example_world) = Some beta"
    by (simp add: example_world_fields site_with_uid_def acme_def beta_def)
  have o: "oid beta \<noteq> None" and o2: "oid beta = Some 2"
    by (simp_all add: beta_def)
  from activateSite_twice[OF f p o, of "''j1''" "''j2''"]
  show ?thesis
    using f p o2 by simp
qed

section \<open>Command handlers and SiteService.init\<close>

lemma dao_save_job_log [simp]: "job_log (fst (dao_save s w)) = job_log w"
  by (simp add: dao_save_def Let_def db_called_def split: option.splits)

lemma dao_save_job_log_pair: "dao_save s w = (w', r) \<Longrightarrow> job_log w' = job_log w"
  using dao_save_job_log[of s w] by simp

lemma job_run_job_log: "job_log (fst (job_run j w)) = job_log w @ [j]"
  by (auto simp: job_run_def dao_loadByValue_uid db_reply_def Let_def rh_activateSite_def
        rh_deactivateSite_def broadcast_def
        split: option.splits sum.splits prod.splits job_class.splits
        dest!: dao_save_job_log_pair)

lemma handlers_for_init:
  "handlers_for t (init w) =
     handlers_for t w
       @ (if t = ''deactivate_site'' then [OnActivateSiteCommandReceived] else [])
       @ (if t = ''activate_site'' then [OnDeactivateSiteCommandReceived] else [])"
  by (simp add: handlers_for_def init_def registerForType_def)

lemma init_job_log [simp]: "job_log (init w) = job_log w"
  by (simp add: init_def registerForType_def)

lemma onDeactivate_job_log:
  "job_log (onDeactivateSiteCommandReceived (Object c) w) =
     job_log w @ [\<lparr>job_class = SiteDeactivateJob, runAsInitiator = False,
                   job_name = ''DEACTIVATE_SITE_'' @ csite c, job_id = jobId c,
                   job_site = csite c\<rparr>]"
proof -
  let ?j = "\<lparr>job_class = SiteDeactivateJob, runAsInitiator = False,
             job_name = ''DEACTIVATE_SITE_'' @ csite c, job_id = jobId c, job_site = csite c\<rparr>"
  obtain w' err res where r: "job_run ?j w = (w', err, res)"
    by (cases "job_run ?j w") auto
  then have "job_log w' = job_log w @ [?j]"
    using job_run_job_log[of ?j w] by simp
  with r show ?thesis
    by (simp add: onDeactivateSiteCommandReceived_def Let_def sendInResponseTo_def)
qed

lemma onActivate_job_log:
  "job_log (onActivateSiteCommandReceived (Object c) w) =
     job_log w @ [\<lparr>job_class = SiteActivateJob, runAsInitiator = False,
                   job_name = ''ACTIVATE_SITE_'' @ csite c, job_id = jobId c,
                   job_site = csite c\<rparr>]"
proof -
  let ?j = "\<lparr>job_class = SiteActivateJob, runAsInitiator = False,
             job_name = ''ACTIVATE_SITE_'' @ csite c, job_id = jobId c, job_site = csite c\<rparr>"
  obtain w' err res where r: "job_run ?j w = (w', err, res)"
    by (cases "job_run ?j w") auto
  then have "job_log w' = job_log w @ [?j]"
    using job_run_job_log[of ?j w] by simp
  with r show ?thesis
    by (simp add: onActivateSiteCommandReceived_def Let_def sendInResponseTo_def)
qed

text \<open>
  C1. \<open>SiteService.init\<close> registers the two handlers under each other's type. On a process
  with no handler registered before, the handler for \<open>'activate_site'\<close> is
  \<open>onDeactivateSiteCommandReceived\<close>, so an inbound \<open>activate_site\<close> command runs a
  \<open>SiteDeactivateJob\<close> named \<open>DEACTIVATE_SITE_<site>\<close> (with \<open>runAsInitiator = false\<close> and
  the command's job id); and the handler for \<open>'deactivate_site'\<close> is
  \<open>onActivateSiteCommandReceived\<close>, so an inbound \<open>deactivate_site\<close> command runs a
  \<open>SiteActivateJob\<close>.
\<close>

theorem init_registers_handlers_swapped:
  assumes "handlers w = []"
  shows "handlers_for ''activate_site'' (init w) = [OnDeactivateSiteCommandReceived]
       \<and> handlers_for ''deactivate_site'' (init w) = [OnActivateSiteCommandReceived]
       \<and> (ctype c = ''activate_site'' \<longrightarrow>
            receive c (init w) = onDeactivateSiteCommandReceived (Object c) (init w)
            \<and> job_log (receive c (init w)) =
                job_log w @ [\<lparr>job_class = SiteDeactivateJob, runAsInitiator = False,
                              job_name = ''DEACTIVATE_SITE_'' @ csite c, job_id = jobId c,
                              job_site = csite c\<rparr>])
       \<and> (ctype c = ''deactivate_site'' \<longrightarrow>
            receive c (init w) = onActivateSiteCommandReceived (Object c) (init w)
            \<and> job_log (receive c (init w)) =
                job_log w @ [\<lparr>job_class = SiteActivateJob, runAsInitiator = False,
                              job_name = ''ACTIVATE_SITE_'' @ csite c, job_id = jobId c,
                              job_site = csite c\<rparr>])"
proof -
  have none: "handlers_for t w = []" for t
    using assms by (simp add: handlers_for_def)
  have a: "handlers_for ''activate_site'' (init w) = [OnDeactivateSiteCommandReceived]"
    by (simp add: handlers_for_init none)
  have d: "handlers_for ''deactivate_site'' (init w) = [OnActivateSiteCommandReceived]"
    by (simp add: handlers_for_init none)
  show ?thesis
    by (simp add: a d receive_def onDeactivate_job_log onActivate_job_log)
qed

theorem init_registers_handlers_swapped_witness:
  "handlers (fresh_world [acme]) = []
   \<and> ctype activate_x = ''activate_site''
   \<and> handlers_for ''activate_site'' (init (fresh_world [acme])) = [OnDeactivateSiteCommandReceived]
   \<and> receive activate_x (init (fresh_world [acme])) =
       onDeactivateSiteCommandReceived (Object activate_x) (init (fresh_world [acme]))
   \<and> job_log (receive activate_x (init (fresh_world [acme]))) =
       [\<lparr>job_class = SiteDeactivateJob, runAsInitiator = False,
         job_name = ''DEACTIVATE_SITE_x'', job_id = ''j1'', job_site = ''x''\<rparr>]"
proof -
  have h: "handlers (fresh_world [acme]) = []"
    by (simp add: fresh_world_def)
  have t: "ctype activate_x = ''activate_site''"
    by (simp add: activate_x_def)
  have j: "job_log (fresh_world [acme]) = []"
    by (simp add: fresh_world_def)
  note sw = init_registers_handlers_swapped[OF h, of activate_x]
  have hf: "handlers_for ''activate_site'' (init (fresh_world [acme])) =
      [OnDeactivateSiteCommandReceived]"
    using sw by blast
  have r: "receive activate_x (init (fresh_world [acme])) =
       onDeactivateSiteCommandReceived (Object activate_x) (init (fresh_world [acme]))"
    using sw t by blast
  have jl: "job_log (receive activate_x (init (fresh_world [acme]))) =
      job_log (fresh_world [acme]) @
        [\<lparr>job_class = SiteDeactivateJob, runAsInitiator = False,
          job_name = ''DEACTIVATE_SITE_'' @ csite activate_x, job_id = jobId activate_x,
          job_site = csite activate_x\<rparr>]"
    using sw t by blast
  have jl': "job_log (receive activate_x (init (fresh_world [acme]))) =
       [\<lparr>job_class = SiteDeactivateJob, runAsInitiator = False,
         job_name = ''DEACTIVATE_SITE_x'', job_id = ''j1'', job_site = ''x''\<rparr>]"
    unfolding jl by (simp add: j activate_x_def)
  show ?thesis
    using h t hf r jl' by blast
qed

text \<open>
  The example end to end: the active site \<open>x\<close> receives an \<open>activate_site\<close> command and
  ends up inactive, deactivated in the Routing Registry, with a response that reports
  success.
\<close>

lemma activate_command_deactivates_example:
  "store (receive activate_x (init (fresh_world [acme]))) = [acme\<lparr>active := False\<rparr>]
   \<and> reg_log (receive activate_x (init (fresh_world [acme]))) =
       [DeactivateSite (acme\<lparr>active := False\<rparr>)]
   \<and> responses (receive activate_x (init (fresh_world [acme]))) =
       [(activate_x, \<lparr>r_error = None, r_result = True\<rparr>)]"
  by code_simp

text \<open>What is not an object is logged with its rendering and dropped: no job, no response.\<close>

lemma invalid_command_logged_and_dropped:
  "onActivateSiteCommandReceived (Not_object inspected) w =
     w\<lparr>error_log := error_log w @
          [''SiteService: an invalid activate_site command object was passed. '' @ inspected]\<rparr>
   \<and> onDeactivateSiteCommandReceived (Not_object inspected) w =
     w\<lparr>error_log := error_log w @
          [''SiteService: an invalid deactivate_site command object was passed. '' @ inspected]\<rparr>"
  by (simp add: onActivateSiteCommandReceived_def onDeactivateSiteCommandReceived_def)

text \<open>A command for a site that has no record is answered with the error, and nothing breaks.\<close>

lemma command_for_missing_site_example:
  "responses (receive activate_x (init (fresh_world []))) =
     [(activate_x, \<lparr>r_error = Some ''Error: Site not found'', r_result = False\<rparr>)]"
  by code_simp

end
